theory Spec2Isabelle
  imports Main "HOL-Library.Sublist"
begin

section \<open>Data model\<close>

text \<open>
  The program mirrors the repositories listed by a remote API to local disk. The model
  follows the later of the two versions of the program (the one with pagination, stderr
  capture and the retry pause). Everything the program asks of the outside (the HTTP
  transport, the file system, the external \<^verbatim>\<open>git\<close> command) is an oracle of the
  record \<open>world\<close>, indexed by a clock that counts the answered calls made so far, so an
  answer may depend on everything that happened before it. Every call and log line is
  appended to a trace.
\<close>

record Repo =
  FullName :: string
  SSHUrl :: string

record Response =
  StatusCode :: int
  HeaderLink :: string
  Body :: "string option"

text \<open>
  \<open>HeaderLink\<close> is \<^verbatim>\<open>rsp.Header.Get("Link")\<close>: the empty string when the response
  has no such header. \<open>Body\<close> is the result of \<^verbatim>\<open>ioutil.ReadAll(rsp.Body)\<close>, \<open>None\<close>
  when the read fails.
\<close>

datatype os_error = ENOENT | EACCES | ENOTDIR | EOTHER

datatype wait_status = Exited int | Signaled int

fun ExitStatus :: "wait_status \<Rightarrow> int" where
  "ExitStatus (Exited c) = c"
| "ExitStatus (Signaled sig) = - 1"

datatype run_error = ExitError wait_status | OtherError

record RunResult =
  Err :: "run_error option"
  Stderr :: string

text \<open>
  \<open>Err\<close> is what \<^verbatim>\<open>cmd.Run()\<close> returns: \<open>None\<close> for a zero exit, \<open>ExitError\<close> for a
  process that ran and did not exit with zero, \<open>OtherError\<close> for every other failure
  (the executable could not be started, copying a stream failed). \<open>Stderr\<close> is the
  content of the buffer that \<^verbatim>\<open>pipeWriter\<close> fills during that attempt.
\<close>

datatype 'a outcome = Returned 'a | Fatal | Panicked

text \<open>
  \<open>Fatal\<close> is \<^verbatim>\<open>lg.Fatalf\<close> (log, then exit with status 1); \<open>Panicked\<close> is a
  \<^verbatim>\<open>panic\<close>, explicit or raised by the runtime on an index out of range.
\<close>

datatype log_line =
    Log_fetch_api string
  | Log_ratelimit
  | Log_cmd_error string "string list" run_error
  | Log_retry string "string list"
  | Log_sync_repos string string
  | Log_repo_count string nat
  | Log_sync_repo string string
  | Log_dir_not_found string
  | Log_git_clone string

datatype event =
    Ev_log log_line
  | Ev_request string
  | Ev_sleep nat
  | Ev_stat string
  | Ev_mkdir_all string nat
  | Ev_chdir string
  | Ev_run string "string list"

text \<open>\<open>Ev_sleep\<close> carries milliseconds; \<open>Ev_mkdir_all\<close> carries the permission bits.\<close>

record pstate =
  trace :: "event list"
  clock :: nat

record world =
  new_request_ok :: "string \<Rightarrow> bool"
  client_do :: "nat \<Rightarrow> string \<Rightarrow> string + Response"
  json_unmarshal :: "string \<Rightarrow> Repo list option"
  path_exists :: "nat \<Rightarrow> string \<Rightarrow> bool"
  is_dir :: "nat \<Rightarrow> string \<Rightarrow> bool"
  os_stat :: "nat \<Rightarrow> string \<Rightarrow> os_error option"
  os_mkdir_all :: "nat \<Rightarrow> string \<Rightarrow> nat \<Rightarrow> os_error option"
  os_chdir :: "nat \<Rightarrow> string \<Rightarrow> os_error option"
  cmd_run :: "nat \<Rightarrow> string \<Rightarrow> string list \<Rightarrow> RunResult"

text \<open>
  \<open>new_request_ok\<close> says whether \<^verbatim>\<open>http.NewRequest\<close> accepts the URL;
  \<open>client_do\<close> is the transport (\<open>Inl\<close> a transport error); \<open>json_unmarshal\<close> decodes a
  page body into records. \<open>path_exists\<close> and \<open>is_dir\<close> are the truth about the file
  system (whether anything is at the path, and whether what is there is a directory),
  which the program never sees: it sees only what \<open>os_stat\<close> answers. \<open>os_chdir\<close> is the
  answer of \<^verbatim>\<open>os.Chdir\<close>. The program drops it; it decides the working directory
  of the process, which lives in the operating system and which the program never reads.
\<close>

definition emit :: "event \<Rightarrow> pstate \<Rightarrow> pstate" where
  "emit e s = s\<lparr>trace := trace s @ [e]\<rparr>"

definition tick :: "pstate \<Rightarrow> pstate" where
  "tick s = s\<lparr>clock := Suc (clock s)\<rparr>"

text \<open>The state after further events and \<open>k\<close> further answered calls.\<close>

definition advance :: "event list \<Rightarrow> nat \<Rightarrow> pstate \<Rightarrow> pstate" where
  "advance evs k s = s\<lparr>trace := trace s @ evs, clock := clock s + k\<rparr>"

section \<open>String operations of the Go library\<close>

text \<open>\<^verbatim>\<open>strings.Split(s, sep)\<close> for a separator of one byte: never an empty list.\<close>

fun split_on :: "char \<Rightarrow> string \<Rightarrow> string list" where
  "split_on c [] = [[]]"
| "split_on c (x # xs) =
     (if x = c then [] # split_on c xs
      else (case split_on c xs of [] \<Rightarrow> [[x]] | y # ys \<Rightarrow> (x # y) # ys))"

fun HasPrefix :: "string \<Rightarrow> string \<Rightarrow> bool" where
  "HasPrefix s [] = True"
| "HasPrefix [] (p # ps) = False"
| "HasPrefix (x # xs) (p # ps) = (x = p \<and> HasPrefix xs ps)"

text \<open>\<^verbatim>\<open>strings.Contains(s, substr)\<close>, case-sensitive.\<close>

fun Contains :: "string \<Rightarrow> string \<Rightarrow> bool" where
  "Contains [] sub = (sub = [])"
| "Contains (x # xs) sub = (HasPrefix (x # xs) sub \<or> Contains xs sub)"

text \<open>\<^verbatim>\<open>xs[i]\<close>: \<open>None\<close> is the runtime's panic on an index out of range.\<close>

definition index :: "'a list \<Rightarrow> nat \<Rightarrow> 'a option" where
  "index xs i = (if i < length xs then Some (xs ! i) else None)"

text \<open>\<^verbatim>\<open>s[lo:hi]\<close>: \<open>None\<close> is the runtime's panic on slice bounds out of range.\<close>

definition slice :: "string \<Rightarrow> int \<Rightarrow> int \<Rightarrow> string option" where
  "slice s lo hi =
     (if 0 \<le> lo \<and> lo \<le> hi \<and> hi \<le> int (length s)
      then Some (take (nat (hi - lo)) (drop (nat lo) s)) else None)"

section \<open>The Command Runner: \<^verbatim>\<open>doExec\<close>\<close>

function do_exec_loop :: "world \<Rightarrow> string \<Rightarrow> string list \<Rightarrow> nat \<Rightarrow> pstate \<Rightarrow> pstate" where
  "do_exec_loop w name arg i s =
     (if i < 20 then
        (let r = cmd_run w (clock s) name arg;
             s1 = tick (emit (Ev_run name arg) s)
         in case Err r of
              None \<Rightarrow> s1
            | Some err \<Rightarrow>
                if Contains (Stderr r) ''DMCA takedown'' then s1
                else if (case err of ExitError status \<Rightarrow> ExitStatus status = 1
                                   | OtherError \<Rightarrow> False) then s1
                else do_exec_loop w name arg (Suc i)
                       (emit (Ev_sleep 200)
                         (emit (Ev_log (Log_retry name arg))
                           (emit (Ev_log (Log_cmd_error name arg err)) s1))))
      else s)"
  by pat_completeness auto
termination
  by (relation "measure (\<lambda>(w, name, arg, i, s). 20 - i)") auto

declare do_exec_loop.simps [simp del]

definition doExec :: "world \<Rightarrow> string \<Rightarrow> string list \<Rightarrow> pstate \<Rightarrow> pstate" where
  "doExec w name arg s = do_exec_loop w name arg 0 s"

text \<open>
  The spec's classification of an attempt as transient: a non-zero exit other than 1, or
  a failure to run the command at all, with no takedown marker in the captured stderr.
  (\<^verbatim>\<open>cmd.Run()\<close> returns an \<open>ExitError\<close> only for a process that did not exit with
  zero, so the status inside one is never zero.)
\<close>

definition transient_failure :: "RunResult \<Rightarrow> bool" where
  "transient_failure r =
     (\<not> Contains (Stderr r) ''DMCA takedown'' \<and>
      (case Err r of
         None \<Rightarrow> False
       | Some OtherError \<Rightarrow> True
       | Some (ExitError status) \<Rightarrow> ExitStatus status \<noteq> 1))"

text \<open>What one failed and retried attempt, made at clock \<open>c\<close>, leaves in the trace.\<close>

definition retry_block :: "world \<Rightarrow> string \<Rightarrow> string list \<Rightarrow> nat \<Rightarrow> event list" where
  "retry_block w name arg c =
     (case Err (cmd_run w c name arg) of
        None \<Rightarrow> []
      | Some err \<Rightarrow> [Ev_run name arg, Ev_log (Log_cmd_error name arg err),
                     Ev_log (Log_retry name arg), Ev_sleep 200])"

definition retries :: "world \<Rightarrow> string \<Rightarrow> string list \<Rightarrow> nat \<Rightarrow> nat \<Rightarrow> event list" where
  "retries w name arg c k = concat (map (retry_block w name arg) [c..<c + k])"

section \<open>The Paginated Fetcher: \<^verbatim>\<open>fetchApiContent\<close>\<close>

definition github_api :: string where
  "github_api = ''https://api.github.com''"

definition parseRepo :: "world \<Rightarrow> string \<Rightarrow> Repo list option" where
  "parseRepo w content = json_unmarshal w content"

text \<open>
  One pass through the body of the \<^verbatim>\<open>for\<close> loop: the walk stops with an outcome, or
  goes on with the next endpoint and the records gathered so far. \<open>Ev_request\<close> stands for
  the \<^verbatim>\<open>GET\<close> with the credentials of the configuration attached; a failure of
  \<^verbatim>\<open>json.Unmarshal\<close> is the \<open>None\<close> of \<open>parseRepo\<close>, which the code turns into a
  panic.
\<close>

datatype page_step = Stop "Repo list outcome" | Next string "Repo list"

definition fetch_page :: "world \<Rightarrow> string \<Rightarrow> Repo list \<Rightarrow> pstate \<Rightarrow> page_step \<times> pstate" where
  "fetch_page w api reps s =
     (let s0 = emit (Ev_log (Log_fetch_api api)) s in
      if \<not> new_request_ok w api then (Stop Panicked, s0)
      else
        (let s1 = tick (emit (Ev_request api) s0) in
         (case client_do w (clock s) api of
            Inl err \<Rightarrow> (Stop Fatal, s1)
          | Inr rsp \<Rightarrow>
              if StatusCode rsp \<noteq> 200 then (Stop Fatal, s1)
              else
                (case index (split_on CHR '','' (HeaderLink rsp)) 0 of
                   None \<Rightarrow> (Stop Panicked, s1)
                 | Some entry \<Rightarrow>
                    (let link = split_on CHR '';'' entry in
                     (case index link 0 of
                        None \<Rightarrow> (Stop Panicked, s1)
                      | Some link0 \<Rightarrow>
                         (case slice link0 1 (int (length link0) - 1) of
                            None \<Rightarrow> (Stop Panicked, s1)
                          | Some api' \<Rightarrow>
                             (case Body rsp of
                                None \<Rightarrow> (Stop Panicked, s1)
                              | Some content \<Rightarrow>
                                 (case parseRepo w content of
                                    None \<Rightarrow> (Stop Panicked, s1)
                                  | Some repos \<Rightarrow>
                                     (case index link 1 of
                                        None \<Rightarrow> (Stop Panicked, s1)
                                      | Some link1 \<Rightarrow>
                                          if \<not> Contains link1 ''next''
                                          then (Stop (Returned (reps @ repos)), s1)
                                          else (Next api' (reps @ repos),
                                                emit (Ev_sleep 2000)
                                                  (emit (Ev_log Log_ratelimit) s1))))))))))))"

text \<open>
  The loop has no bound of its own: it runs for as long as the server names a next page.
  The model takes fuel, one unit for each page, and \<open>None\<close> is a walk that has not
  ended when the fuel has.
\<close>

fun fetch_loop :: "nat \<Rightarrow> world \<Rightarrow> string \<Rightarrow> Repo list \<Rightarrow> pstate \<Rightarrow> (Repo list outcome \<times> pstate) option" where
  "fetch_loop 0 w api reps s = None"
| "fetch_loop (Suc fuel) w api reps s =
     (case fetch_page w api reps s of
        (Stop out, s') \<Rightarrow> Some (out, s')
      | (Next api' reps', s') \<Rightarrow> fetch_loop fuel w api' reps' s')"

definition fetchApiContent :: "nat \<Rightarrow> world \<Rightarrow> string \<Rightarrow> pstate \<Rightarrow> (Repo list outcome \<times> pstate) option" where
  "fetchApiContent fuel w uri s = fetch_loop fuel w (github_api @ uri) [] s"

section \<open>The Reconciler: \<^verbatim>\<open>syncRepos\<close>\<close>

text \<open>The body of the loop over the records: one record reconciled.\<close>

definition sync_repo :: "world \<Rightarrow> string \<Rightarrow> Repo \<Rightarrow> pstate \<Rightarrow> unit outcome \<times> pstate" where
  "sync_repo w rootDir repo s =
     (let s0 = emit (Ev_log (Log_sync_repo (FullName repo) (SSHUrl repo))) s;
          localDir = rootDir @ ''/'' @ FullName repo;
          s1 = tick (emit (Ev_stat localDir) s0)
      in (case os_stat w (clock s0) localDir of
            Some err \<Rightarrow>
              (let s2 = emit (Ev_log (Log_dir_not_found localDir)) s1;
                   s3 = tick (emit (Ev_mkdir_all localDir 448) s2)
               in (case os_mkdir_all w (clock s2) localDir 448 of
                     Some err' \<Rightarrow> (Fatal, s3)
                   | None \<Rightarrow>
                       (Returned (),
                        doExec w ''git'' [''clone'', SSHUrl repo, localDir]
                          (emit (Ev_log (Log_git_clone (FullName repo))) s3))))
          | None \<Rightarrow>
              (Returned (),
               doExec w ''git'' [''pull'', ''--rebase'']
                 (doExec w ''git'' [''reset'', ''--hard''] (emit (Ev_chdir localDir) s1)))))"

text \<open>
  The permission bits \<^verbatim>\<open>0700\<close> are the number 448. \<^verbatim>\<open>os.Chdir\<close> is called for
  its effect and its result is dropped, so it takes no answer from the world.
\<close>

fun sync_loop :: "world \<Rightarrow> string \<Rightarrow> Repo list \<Rightarrow> pstate \<Rightarrow> unit outcome \<times> pstate" where
  "sync_loop w rootDir [] s = (Returned (), s)"
| "sync_loop w rootDir (repo # repos) s =
     (case sync_repo w rootDir repo s of
        (Returned u, s') \<Rightarrow> sync_loop w rootDir repos s'
      | (Fatal, s') \<Rightarrow> (Fatal, s')
      | (Panicked, s') \<Rightarrow> (Panicked, s'))"

definition syncRepos :: "nat \<Rightarrow> world \<Rightarrow> string \<Rightarrow> string \<Rightarrow> pstate \<Rightarrow> (unit outcome \<times> pstate) option" where
  "syncRepos fuel w rootDir api_uri s =
     (case fetchApiContent fuel w api_uri (emit (Ev_log (Log_sync_repos rootDir api_uri)) s) of
        None \<Rightarrow> None
      | Some (Returned repos, s') \<Rightarrow>
          Some (sync_loop w rootDir repos
                  (emit (Ev_log (Log_repo_count api_uri (length repos))) s'))
      | Some (Fatal, s') \<Rightarrow> Some (Fatal, s')
      | Some (Panicked, s') \<Rightarrow> Some (Panicked, s'))"

text \<open>
  What the file system owes the program: \<^verbatim>\<open>os.Stat\<close> succeeds only on a path that
  exists, and reports non-existence only of a path that does not.
\<close>

definition stat_sound :: "world \<Rightarrow> bool" where
  "stat_sound w =
     (\<forall>c p. (os_stat w c p = None \<longrightarrow> path_exists w c p) \<and>
            (os_stat w c p = Some ENOENT \<longrightarrow> \<not> path_exists w c p))"

text \<open>
  The events of a trace that act on the outside: every event but a log line or a pause.
  Each attempt of a command is one such event.
\<close>

fun is_action :: "event \<Rightarrow> bool" where
  "is_action (Ev_log l) = False"
| "is_action (Ev_sleep d) = False"
| "is_action e = True"

definition actions :: "event list \<Rightarrow> event list" where
  "actions evs = filter is_action evs"

text \<open>
  The working directory of the process after the events of a trace, from the directory
  \<open>d\<close> and the clock \<open>c\<close> at its start. Only \<^verbatim>\<open>os.Chdir\<close> moves it, and only when
  it succeeds; a relative path is taken from the directory the process is in. The clock
  advances at the events that take an answer from the world.
\<close>

fun answered :: "event \<Rightarrow> bool" where
  "answered (Ev_request u) = True"
| "answered (Ev_stat p) = True"
| "answered (Ev_mkdir_all p m) = True"
| "answered (Ev_run name arg) = True"
| "answered e = False"

definition resolve :: "string \<Rightarrow> string \<Rightarrow> string" where
  "resolve d p = (if HasPrefix p ''/'' then p else d @ ''/'' @ p)"

fun working_dir :: "world \<Rightarrow> nat \<Rightarrow> string \<Rightarrow> event list \<Rightarrow> string" where
  "working_dir w c d [] = d"
| "working_dir w c d (Ev_chdir p # evs) =
     working_dir w c (if os_chdir w c p = None then resolve d p else d) evs"
| "working_dir w c d (e # evs) = working_dir w (if answered e then Suc c else c) d evs"

text \<open>
  Permission bits that grant nothing to the group and nothing to others: the six low bits
  are zero. \<^verbatim>\<open>0700\<close>, the number 448, is such a mode.
\<close>

definition owner_only :: "nat \<Rightarrow> bool" where
  "owner_only perm = (perm mod 64 = 0)"


section \<open>Concrete worlds\<close>

text \<open>
  Worlds on which the theorems below are run. In \<open>world0\<close> the transport refuses every
  connection, no path exists, every directory can be made and every command succeeds; the
  others change the oracles named in their definitions.
\<close>

definition world0 :: world where
  "world0 = \<lparr>new_request_ok = (\<lambda>u. True), client_do = (\<lambda>c u. Inl ''connection refused''),
     json_unmarshal = (\<lambda>b. None), path_exists = (\<lambda>c p. False), is_dir = (\<lambda>c p. False),
     os_stat = (\<lambda>c p. Some ENOENT), os_mkdir_all = (\<lambda>c p m. None),
     os_chdir = (\<lambda>c p. None),
     cmd_run = (\<lambda>c n a. \<lparr>Err = None, Stderr = ''''\<rparr>)\<rparr>"

definition s_init :: pstate where
  "s_init = \<lparr>trace = [], clock = 0\<rparr>"



text \<open>The first attempt cannot be started; the second meets a repository taken down.\<close>

definition world_takedown :: world where
  "world_takedown = world0\<lparr>cmd_run := (\<lambda>c n a.
     if c = 0 then \<lparr>Err = Some OtherError, Stderr = ''''\<rparr>
     else \<lparr>Err = Some (ExitError (Exited 128)),
           Stderr = ''fatal: unable to access: Repository unavailable due to DMCA takedown.''\<rparr>)\<rparr>"

text \<open>The first attempt is killed by a signal; the second exits with status 1.\<close>

definition world_exit1 :: world where
  "world_exit1 = world0\<lparr>cmd_run := (\<lambda>c n a.
     if c = 0 then \<lparr>Err = Some (ExitError (Signaled 9)), Stderr = ''''\<rparr>
     else \<lparr>Err = Some (ExitError (Exited 1)), Stderr = ''error: cannot pull with rebase''\<rparr>)\<rparr>"

text \<open>A listing of one page: status 200, no \<^verbatim>\<open>Link\<close> header, an empty array as body.\<close>

definition world_one_page :: world where
  "world_one_page = world0\<lparr>
     client_do := (\<lambda>c u. Inr \<lparr>StatusCode = 200, HeaderLink = '''', Body = Some ''[]''\<rparr>),
     json_unmarshal := (\<lambda>b. if b = ''[]'' then Some [] else None)\<rparr>"

text \<open>
  A listing of three pages with one record each. The first page names the next page
  first; the middle page names the previous page first and the next page second.
\<close>

definition page1_url :: string where
  "page1_url = ''https://api.github.com/user/repos''"

definition page2_url :: string where
  "page2_url = ''https://api.github.com/user/repos?page=2''"

definition page3_url :: string where
  "page3_url = ''https://api.github.com/user/repos?page=3''"

definition repo_a :: Repo where
  "repo_a = \<lparr>FullName = ''alice/a'', SSHUrl = ''git@github.com:alice/a.git''\<rparr>"

definition repo_b :: Repo where
  "repo_b = \<lparr>FullName = ''alice/b'', SSHUrl = ''git@github.com:alice/b.git''\<rparr>"

definition repo_c :: Repo where
  "repo_c = \<lparr>FullName = ''alice/c'', SSHUrl = ''git@github.com:alice/c.git''\<rparr>"

definition first_page :: Response where
  \<open>first_page = \<lparr>StatusCode = 200,
     HeaderLink = ''<https://api.github.com/user/repos?page=2>; rel="next", <https://api.github.com/user/repos?page=3>; rel="last"'',
     Body = Some ''page1''\<rparr>\<close>

definition middle_page :: Response where
  \<open>middle_page = \<lparr>StatusCode = 200,
     HeaderLink = ''<https://api.github.com/user/repos?page=1>; rel="prev", <https://api.github.com/user/repos?page=3>; rel="next", <https://api.github.com/user/repos?page=3>; rel="last", <https://api.github.com/user/repos?page=1>; rel="first"'',
     Body = Some ''page2''\<rparr>\<close>

definition last_page :: Response where
  \<open>last_page = \<lparr>StatusCode = 200,
     HeaderLink = ''<https://api.github.com/user/repos?page=2>; rel="prev", <https://api.github.com/user/repos?page=1>; rel="first"'',
     Body = Some ''page3''\<rparr>\<close>

definition world_three_pages :: world where
  "world_three_pages = world0\<lparr>
     client_do := (\<lambda>c u.
       if u = page1_url then Inr first_page
       else if u = page2_url then Inr middle_page
       else if u = page3_url then Inr last_page
       else Inr \<lparr>StatusCode = 404, HeaderLink = '''', Body = Some ''''\<rparr>),
     json_unmarshal := (\<lambda>b.
       if b = ''page1'' then Some [repo_a]
       else if b = ''page2'' then Some [repo_b]
       else if b = ''page3'' then Some [repo_c]
       else None)\<rparr>"

text \<open>The listing answered with status 203, a status of the 2xx range.\<close>

definition world_status_203 :: world where
  "world_status_203 = world0\<lparr>
     client_do := (\<lambda>c u. Inr (last_page\<lparr>StatusCode := 203\<rparr>)),
     json_unmarshal := (\<lambda>b. if b = ''page3'' then Some [repo_c] else None)\<rparr>"

text \<open>
  A mirror in which the directory of \<open>repo_b\<close> exists, that of \<open>repo_a\<close> does not and can be
  made, and that of \<open>repo_c\<close> does not and cannot be made.
\<close>

definition world_mirror :: world where
  "world_mirror = world0\<lparr>
     path_exists := (\<lambda>c p. p = ''/data/mirror/users/alice/b''),
     os_stat := (\<lambda>c p. if p = ''/data/mirror/users/alice/b'' then None else Some ENOENT),
     os_mkdir_all := (\<lambda>c p m. if p = ''/data/mirror/users/alice/c'' then Some EACCES else None)\<rparr>"

text \<open>
  A mirror in which the directory of \<open>repo_a\<close> exists under a parent that the user may
  not search: \<^verbatim>\<open>os.Stat\<close> and \<^verbatim>\<open>os.MkdirAll\<close> both answer with a permission error.
\<close>

definition world_denied :: world where
  "world_denied = world0\<lparr>
     path_exists := (\<lambda>c p. p = ''/data/mirror/users/alice/a''),
     os_stat := (\<lambda>c p. if p = ''/data/mirror/users/alice/a'' then Some EACCES else Some ENOENT),
     os_mkdir_all := (\<lambda>c p m. if p = ''/data/mirror/users/alice/a'' then Some EACCES else None)\<rparr>"



text \<open>The world of \<open>world_denied\<close>, with the truth that what is at the path is a directory.\<close>

definition world_denied_dir :: world where
  "world_denied_dir = world_denied\<lparr>is_dir := (\<lambda>c p. p = ''/data/mirror/users/alice/a'')\<rparr>"

text \<open>
  A mirror in which a regular file stands where the directory of \<open>repo_a\<close> would be:
  \<^verbatim>\<open>os.Stat\<close> succeeds on it and \<^verbatim>\<open>os.Chdir\<close> does not.
\<close>

definition world_regular_file :: world where
  "world_regular_file = world0\<lparr>
     path_exists := (\<lambda>c p. p = ''/data/mirror/users/alice/a''),
     os_stat := (\<lambda>c p. if p = ''/data/mirror/users/alice/a'' then None else Some ENOENT),
     os_chdir := (\<lambda>c p. if p = ''/data/mirror/users/alice/a'' then Some ENOTDIR else None)\<rparr>"

text \<open>
  A mirror in which the directory of \<open>repo_a\<close> exists and may be examined but not
  entered (it lacks the search permission): \<^verbatim>\<open>os.Stat\<close> succeeds on it and
  \<^verbatim>\<open>os.Chdir\<close> answers with a permission error.
\<close>

definition world_closed_dir :: world where
  "world_closed_dir = world0\<lparr>
     path_exists := (\<lambda>c p. p = ''/data/mirror/users/alice/a''),
     is_dir := (\<lambda>c p. p = ''/data/mirror/users/alice/a''),
     os_stat := (\<lambda>c p. if p = ''/data/mirror/users/alice/a'' then None else Some ENOENT),
     os_chdir := (\<lambda>c p. if p = ''/data/mirror/users/alice/a'' then Some EACCES else None)\<rparr>"


text \<open>A page with status 200 and a well-formed header whose body is no JSON.\<close>

definition world_bad_body :: world where
  "world_bad_body = world0\<lparr>
     client_do := (\<lambda>c u. Inr (last_page\<lparr>Body := Some ''<html>''\<rparr>))\<rparr>"

section \<open>Lemmas\<close>

lemma emit_advance: "emit e s = advance [e] 0 s"
  by (simp add: emit_def advance_def)

lemma tick_advance: "tick s = advance [] 1 s"
  by (simp add: tick_def advance_def)

lemma advance_advance [simp]: "advance evs k (advance evs' k' s) = advance (evs' @ evs) (k' + k) s"
  by (simp add: advance_def add.assoc)

lemma advance_nothing [simp]: "advance [] 0 s = s"
  by (simp add: advance_def)

lemma trace_advance [simp]: "trace (advance evs k s) = trace s @ evs"
  by (simp add: advance_def)

lemma clock_advance [simp]: "clock (advance evs k s) = clock s + k"
  by (simp add: advance_def)

lemma retries_0: "retries w name arg c 0 = []"
  by (simp add: retries_def)

lemma retries_Suc_left:
  "retries w name arg c (Suc k) = retry_block w name arg c @ retries w name arg (Suc c) k"
  by (simp add: retries_def upt_conv_Cons del: upt_Suc)

lemma do_exec_loop_transient_step:
  assumes "i < 20" and "transient_failure (cmd_run w (clock s) name arg)"
  shows "do_exec_loop w name arg i s =
         do_exec_loop w name arg (Suc i) (advance (retry_block w name arg (clock s)) 1 s)"
  using assms
  by (subst do_exec_loop.simps)
     (auto simp: transient_failure_def retry_block_def emit_advance tick_advance Let_def
           split: option.splits run_error.splits)

lemma do_exec_loop_retries:
  assumes "i + k \<le> 20"
    and "\<forall>j<k. transient_failure (cmd_run w (clock s + j) name arg)"
  shows "do_exec_loop w name arg i s =
         do_exec_loop w name arg (i + k) (advance (retries w name arg (clock s) k) k s)"
  using assms
proof (induction k arbitrary: i s)
  case 0
  then show ?case by (simp add: retries_0)
next
  case (Suc k)
  let ?s1 = "advance (retry_block w name arg (clock s)) 1 s"
  have first: "transient_failure (cmd_run w (clock s) name arg)"
    using Suc.prems(2) by (auto dest: spec [of _ 0])
  have rest: "\<forall>j<k. transient_failure (cmd_run w (clock ?s1 + j) name arg)"
    using Suc.prems(2) by (auto dest: spec [of _ "Suc j" for j])
  have "do_exec_loop w name arg i s = do_exec_loop w name arg (Suc i) ?s1"
    using Suc.prems(1) first by (intro do_exec_loop_transient_step) simp_all
  also have "\<dots> = do_exec_loop w name arg (Suc i + k)
       (advance (retries w name arg (clock ?s1) k) k ?s1)"
    using Suc.prems(1) rest by (intro Suc.IH) simp_all
  finally show ?case by (simp add: retries_Suc_left)
qed

lemma do_exec_loop_done: "do_exec_loop w name arg 20 s = s"
  by (subst do_exec_loop.simps) simp

lemma do_exec_loop_stop:
  assumes "i < 20"
    and "Err (cmd_run w (clock s) name arg) = None
         \<or> Contains (Stderr (cmd_run w (clock s) name arg)) ''DMCA takedown''
         \<or> (\<exists>status. Err (cmd_run w (clock s) name arg) = Some (ExitError status)
                      \<and> ExitStatus status = 1)"
  shows "do_exec_loop w name arg i s = advance [Ev_run name arg] 1 s"
  using assms
  by (subst do_exec_loop.simps)
     (auto simp: emit_advance tick_advance Let_def split: option.splits run_error.splits)

text \<open>
  Whatever the world answers, one call of the runner is between 1 and 20 attempts of the
  one command it was given, and nothing else that acts on the outside.
\<close>

lemma do_exec_loop_shape:
  "i \<le> 20 \<Longrightarrow> \<exists>evs m. do_exec_loop w name arg i s = advance evs m s
      \<and> actions evs = replicate m (Ev_run name arg) \<and> m \<le> 20 - i \<and> (i < 20 \<longrightarrow> 1 \<le> m)"
proof (induction w name arg i s rule: do_exec_loop.induct)
  case (1 w name arg i s)
  show ?case
  proof (cases "i < 20")
    case False
    with "1.prems" have "i = 20" by simp
    then have "do_exec_loop w name arg i s = advance [] 0 s"
      by (simp add: do_exec_loop_done)
    then show ?thesis using \<open>i = 20\<close>
      by (intro exI [of _ "[]"] exI [of _ 0]) (simp add: actions_def)
  next
    case True
    show ?thesis
    proof (cases "transient_failure (cmd_run w (clock s) name arg)")
      case False
      then have "do_exec_loop w name arg i s = advance [Ev_run name arg] 1 s"
        using True
        by (intro do_exec_loop_stop)
           (auto simp: transient_failure_def split: option.splits run_error.splits)
      then show ?thesis using True
        by (intro exI [of _ "[Ev_run name arg]"] exI [of _ 1]) (simp add: actions_def)
    next
      case tr: True
      then obtain err where err: "Err (cmd_run w (clock s) name arg) = Some err"
        by (auto simp: transient_failure_def split: option.splits)
      let ?s1 = "advance (retry_block w name arg (clock s)) 1 s"
      have step: "do_exec_loop w name arg i s = do_exec_loop w name arg (Suc i) ?s1"
        using True tr by (rule do_exec_loop_transient_step)
      have s1: "?s1 = emit (Ev_sleep 200) (emit (Ev_log (Log_retry name arg))
                 (emit (Ev_log (Log_cmd_error name arg err)) (tick (emit (Ev_run name arg) s))))"
        using err by (simp add: retry_block_def emit_advance tick_advance)
      have "\<exists>evs m. do_exec_loop w name arg (Suc i) ?s1 = advance evs m ?s1
          \<and> actions evs = replicate m (Ev_run name arg) \<and> m \<le> 20 - Suc i
          \<and> (Suc i < 20 \<longrightarrow> 1 \<le> m)"
        unfolding s1 using True tr err
        by (intro "1.IH" [OF True refl refl err])
           (auto simp: transient_failure_def split: run_error.splits)
      then obtain evs m where
        rec: "do_exec_loop w name arg (Suc i) ?s1 = advance evs m ?s1"
        and acts: "actions evs = replicate m (Ev_run name arg)" and m: "m \<le> 20 - Suc i"
        by blast
      have "do_exec_loop w name arg i s =
            advance (retry_block w name arg (clock s) @ evs) (Suc m) s"
        using step rec by simp
      moreover have "actions (retry_block w name arg (clock s) @ evs) =
            replicate (Suc m) (Ev_run name arg)"
        using acts err by (simp add: actions_def retry_block_def)
      ultimately show ?thesis using m True
        by (intro exI [of _ "retry_block w name arg (clock s) @ evs"] exI [of _ "Suc m"]) simp
    qed
  qed
qed

lemma doExec_shape:
  "\<exists>evs m. doExec w name arg s = advance evs m s
      \<and> actions evs = replicate m (Ev_run name arg) \<and> 1 \<le> m \<and> m \<le> 20"
  using do_exec_loop_shape [of 0 w name arg s] by (auto simp: doExec_def)

lemma doExec_after_retries:
  assumes "k \<le> 20" and "\<forall>j<k. transient_failure (cmd_run w (clock s + j) name arg)"
  shows "doExec w name arg s =
         do_exec_loop w name arg k (advance (retries w name arg (clock s) k) k s)"
  unfolding doExec_def using do_exec_loop_retries [of 0 k w s name arg] assms by simp



subsection \<open>The string operations against the library's notions\<close>

lemma HasPrefix_prefix: "HasPrefix s p \<longleftrightarrow> prefix p s"
  by (induction s p rule: HasPrefix.induct) auto

lemma Contains_sublist: "Contains s sub \<longleftrightarrow> sublist sub s"
  by (induction s) (auto simp: sublist_Cons_right HasPrefix_prefix)

lemma split_on_not_empty: "split_on c s \<noteq> []"
  by (induction s) (auto split: list.splits)

lemma split_on_length: "length (split_on c s) = Suc (count_list s c)"
  by (induction s) (auto split: list.splits)

lemma split_on_no_separator: "x \<in> set (split_on c s) \<Longrightarrow> c \<notin> set x"
  by (induction s arbitrary: x) (auto split: list.splits if_splits)

text \<open>Joining the pieces with the separator gives the string back.\<close>

lemma split_on_join: "concat (map ((#) c) (split_on c s)) = c # s"
  by (induction s) (auto split: list.splits)

subsection \<open>One record reconciled\<close>

lemma sync_repo_create:
  assumes "os_stat w (clock s) (rootDir @ ''/'' @ FullName repo) = Some err"
    and "os_mkdir_all w (Suc (clock s)) (rootDir @ ''/'' @ FullName repo) 448 = None"
  shows "\<exists>evs m. sync_repo w rootDir repo s = (Returned (), advance evs (2 + m) s)
      \<and> actions evs = [Ev_stat (rootDir @ ''/'' @ FullName repo),
                        Ev_mkdir_all (rootDir @ ''/'' @ FullName repo) 448]
           @ replicate m (Ev_run ''git'' [''clone'', SSHUrl repo, rootDir @ ''/'' @ FullName repo])
      \<and> 1 \<le> m \<and> m \<le> 20"
proof -
  let ?p = "rootDir @ ''/'' @ FullName repo"
  let ?pre = "[Ev_log (Log_sync_repo (FullName repo) (SSHUrl repo)), Ev_stat ?p,
               Ev_log (Log_dir_not_found ?p), Ev_mkdir_all ?p 448,
               Ev_log (Log_git_clone (FullName repo))]"
  obtain evs m where d: "doExec w ''git'' [''clone'', SSHUrl repo, ?p] (advance ?pre 2 s) =
        advance evs m (advance ?pre 2 s)"
    and a: "actions evs = replicate m (Ev_run ''git'' [''clone'', SSHUrl repo, ?p])"
    and m: "1 \<le> m" "m \<le> 20"
    using doExec_shape by blast
  have "sync_repo w rootDir repo s =
        (Returned (), doExec w ''git'' [''clone'', SSHUrl repo, ?p] (advance ?pre 2 s))"
    using assms by (simp add: sync_repo_def Let_def emit_advance tick_advance numeral_2_eq_2)
  then have "sync_repo w rootDir repo s = (Returned (), advance (?pre @ evs) (2 + m) s)"
    using d by simp
  moreover have "actions (?pre @ evs) = [Ev_stat ?p, Ev_mkdir_all ?p 448]
           @ replicate m (Ev_run ''git'' [''clone'', SSHUrl repo, ?p])"
    using a by (simp add: actions_def)
  ultimately show ?thesis using m by blast
qed

lemma sync_repo_create_fatal:
  assumes "os_stat w (clock s) (rootDir @ ''/'' @ FullName repo) = Some err"
    and "os_mkdir_all w (Suc (clock s)) (rootDir @ ''/'' @ FullName repo) 448 = Some err'"
  shows "sync_repo w rootDir repo s =
    (Fatal, advance [Ev_log (Log_sync_repo (FullName repo) (SSHUrl repo)),
                     Ev_stat (rootDir @ ''/'' @ FullName repo),
                     Ev_log (Log_dir_not_found (rootDir @ ''/'' @ FullName repo)),
                     Ev_mkdir_all (rootDir @ ''/'' @ FullName repo) 448] 2 s)"
  using assms by (simp add: sync_repo_def Let_def emit_advance tick_advance)

lemma sync_repo_update:
  assumes "os_stat w (clock s) (rootDir @ ''/'' @ FullName repo) = None"
  shows "\<exists>evs m n. sync_repo w rootDir repo s = (Returned (), advance evs (1 + m + n) s)
      \<and> actions evs = [Ev_stat (rootDir @ ''/'' @ FullName repo),
                        Ev_chdir (rootDir @ ''/'' @ FullName repo)]
           @ replicate m (Ev_run ''git'' [''reset'', ''--hard''])
           @ replicate n (Ev_run ''git'' [''pull'', ''--rebase''])
      \<and> 1 \<le> m \<and> m \<le> 20 \<and> 1 \<le> n \<and> n \<le> 20"
proof -
  let ?p = "rootDir @ ''/'' @ FullName repo"
  let ?pre = "[Ev_log (Log_sync_repo (FullName repo) (SSHUrl repo)), Ev_stat ?p, Ev_chdir ?p]"
  let ?s1 = "advance ?pre 1 s"
  obtain evs m where d: "doExec w ''git'' [''reset'', ''--hard''] ?s1 = advance evs m ?s1"
    and a: "actions evs = replicate m (Ev_run ''git'' [''reset'', ''--hard''])"
    and m: "1 \<le> m" "m \<le> 20"
    using doExec_shape by blast
  let ?s2 = "advance evs m ?s1"
  obtain evs' n where d': "doExec w ''git'' [''pull'', ''--rebase''] ?s2 = advance evs' n ?s2"
    and a': "actions evs' = replicate n (Ev_run ''git'' [''pull'', ''--rebase''])"
    and n: "1 \<le> n" "n \<le> 20"
    using doExec_shape by blast
  have "sync_repo w rootDir repo s = (Returned (), advance (?pre @ evs @ evs') (1 + m + n) s)"
    using assms d d' by (simp add: sync_repo_def Let_def emit_advance tick_advance)
  moreover have "actions (?pre @ evs @ evs') = [Ev_stat ?p, Ev_chdir ?p]
           @ replicate m (Ev_run ''git'' [''reset'', ''--hard''])
           @ replicate n (Ev_run ''git'' [''pull'', ''--rebase''])"
    using a a' by (simp add: actions_def)
  ultimately show ?thesis using m n by blast
qed



text \<open>The runner asks the world for nothing but the answers of the command.\<close>

lemma do_exec_loop_world:
  assumes "cmd_run w' = cmd_run w"
  shows "do_exec_loop w' name arg i s = do_exec_loop w name arg i s"
proof (induction "20 - i" arbitrary: i s)
  case 0
  then have "\<not> i < 20" by simp
  then have "do_exec_loop w' name arg i s = s" "do_exec_loop w name arg i s = s"
    by (subst do_exec_loop.simps, simp)+
  then show ?case by simp
next
  case (Suc n)
  then have i: "i < 20" by simp
  have rb: "retry_block w' name arg (clock s) = retry_block w name arg (clock s)"
    by (simp add: retry_block_def assms)
  show ?case
  proof (cases "transient_failure (cmd_run w (clock s) name arg)")
    case True
    have "do_exec_loop w' name arg i s =
          do_exec_loop w' name arg (Suc i) (advance (retry_block w name arg (clock s)) 1 s)"
      using do_exec_loop_transient_step [of i w' s name arg] i True unfolding assms rb by blast
    also have "\<dots> = do_exec_loop w name arg (Suc i) (advance (retry_block w name arg (clock s)) 1 s)"
      using Suc.hyps(2) by (intro Suc.hyps(1)) arith
    also have "\<dots> = do_exec_loop w name arg i s"
      using do_exec_loop_transient_step [of i w s name arg] i True by presburger
    finally show ?thesis .
  next
    case False
    then have stop: "Err (cmd_run w (clock s) name arg) = None
         \<or> Contains (Stderr (cmd_run w (clock s) name arg)) ''DMCA takedown''
         \<or> (\<exists>status. Err (cmd_run w (clock s) name arg) = Some (ExitError status)
                      \<and> ExitStatus status = 1)"
      by (auto simp: transient_failure_def split: option.splits run_error.splits)
    have "do_exec_loop w' name arg i s = advance [Ev_run name arg] 1 s"
      using i stop unfolding assms [symmetric] by (intro do_exec_loop_stop)
    moreover have "do_exec_loop w name arg i s = advance [Ev_run name arg] 1 s"
      using i stop by (intro do_exec_loop_stop)
    ultimately show ?thesis by simp
  qed
qed

lemma doExec_world: "cmd_run w' = cmd_run w \<Longrightarrow> doExec w' name arg s = doExec w name arg s"
  unfolding doExec_def by (rule do_exec_loop_world)


text \<open>A pass treats every error of \<^verbatim>\<open>os.Stat\<close> as it treats non-existence.\<close>

lemma sync_repo_any_error:
  assumes "os_stat w (clock s) (rootDir @ ''/'' @ FullName repo) = Some err"
  shows "sync_repo w rootDir repo s = sync_repo (w\<lparr>os_stat := \<lambda>c p. Some ENOENT\<rparr>) rootDir repo s"
  using assms
  by (simp add: sync_repo_def Let_def emit_advance tick_advance
        doExec_world [of "w\<lparr>os_stat := \<lambda>c p. Some ENOENT\<rparr>" w] split: option.splits)

subsection \<open>The working directory\<close>

text \<open>Log lines and pauses move neither the clock nor the working directory.\<close>

lemma working_dir_actions: "working_dir w c d evs = working_dir w c d (actions evs)"
  by (induction w c d evs rule: working_dir.induct) (simp_all add: actions_def)

lemma working_dir_runs:
  "(\<And>e. e \<in> set evs \<Longrightarrow> \<exists>name arg. e = Ev_run name arg) \<Longrightarrow> working_dir w c d evs = d"
proof (induction evs arbitrary: c)
  case Nil
  then show ?case by simp
next
  case (Cons e evs)
  from Cons.prems [of e] obtain name arg where "e = Ev_run name arg" by auto
  then show ?case using Cons by simp
qed

lemma working_dir_update:
  assumes "actions evs = [Ev_stat p, Ev_chdir p'] @ replicate m (Ev_run n1 a1) @ replicate n (Ev_run n2 a2)"
  shows "working_dir w c d evs = (if os_chdir w (Suc c) p' = None then resolve d p' else d)"
proof -
  have "working_dir w c d evs = working_dir w c d (actions evs)"
    by (rule working_dir_actions)
  also have "\<dots> = working_dir w (Suc c) (if os_chdir w (Suc c) p' = None then resolve d p' else d)
      (replicate m (Ev_run n1 a1) @ replicate n (Ev_run n2 a2))"
    unfolding assms by simp
  also have "\<dots> = (if os_chdir w (Suc c) p' = None then resolve d p' else d)"
    by (rule working_dir_runs) auto
  finally show ?thesis .
qed

lemma working_dir_create:
  assumes "actions evs = [Ev_stat p, Ev_mkdir_all p perm] @ replicate m (Ev_run n1 a1)"
  shows "working_dir w c d evs = d"
proof -
  have "working_dir w c d evs = working_dir w c d (actions evs)"
    by (rule working_dir_actions)
  also have "\<dots> = working_dir w (Suc (Suc c)) d (replicate m (Ev_run n1 a1))"
    unfolding assms by simp
  also have "\<dots> = d"
    by (rule working_dir_runs) auto
  finally show ?thesis .
qed

subsection \<open>One page fetched\<close>

text \<open>A string of two bytes or more without its first and its last byte.\<close>

lemma slice_inner:
  assumes "2 \<le> length l"
  shows "slice l 1 (int (length l) - 1) = Some (butlast (tl l))"
proof (cases l)
  case Nil
  with assms show ?thesis by simp
next
  case (Cons a list)
  moreover have "nat (int (length list) - 1) = length list - 1"
    by linarith
  ultimately show ?thesis
    using assms by (simp add: slice_def butlast_conv_take)
qed

lemma fetch_page_processed:
  assumes "new_request_ok w api" and "client_do w (clock s) api = Inr rsp"
    and "StatusCode rsp = 200"
    and "split_on CHR '','' (HeaderLink rsp) = entry # entries"
    and "split_on CHR '';'' entry = link0 # link1 # rest"
    and "2 \<le> length link0"
    and "Body rsp = Some content" and "parseRepo w content = Some repos"
  shows "fetch_page w api reps s =
     (if Contains link1 ''next''
      then (Next (butlast (tl link0)) (reps @ repos),
            advance [Ev_log (Log_fetch_api api), Ev_request api,
                     Ev_log Log_ratelimit, Ev_sleep 2000] 1 s)
      else (Stop (Returned (reps @ repos)),
            advance [Ev_log (Log_fetch_api api), Ev_request api] 1 s))"
  using assms
  by (simp add: fetch_page_def Let_def index_def slice_inner emit_advance tick_advance)

lemma fetch_page_bad_body:
  assumes "new_request_ok w api" and "client_do w (clock s) api = Inr rsp"
    and "StatusCode rsp = 200"
    and "split_on CHR '','' (HeaderLink rsp) = entry # entries"
    and "split_on CHR '';'' entry = link0 # link1 # rest"
    and "2 \<le> length link0"
    and "Body rsp = None \<or> (\<exists>content. Body rsp = Some content \<and> parseRepo w content = None)"
  shows "fetch_page w api reps s =
     (Stop Panicked, advance [Ev_log (Log_fetch_api api), Ev_request api] 1 s)"
  using assms
  by (auto simp: fetch_page_def Let_def index_def slice_inner emit_advance tick_advance)

section \<open>The Command Runner: claims C3, C4 and C5\<close>



text \<open>
  C4: an attempt whose captured stderr contains the marker \<^verbatim>\<open>DMCA takedown\<close> is the
  last one: the runner returns right after it, with no log line, no pause and no further
  attempt, whatever the exit status of the attempt, also when it is the first (\<open>k = 0\<close>).
\<close>

theorem doExec_takedown_stops:
  assumes "k < 20"
    and "\<forall>j<k. transient_failure (cmd_run w (clock s + j) name arg)"
    and "Contains (Stderr (cmd_run w (clock s + k) name arg)) ''DMCA takedown''"
  shows "doExec w name arg s =
         advance (retries w name arg (clock s) k @ [Ev_run name arg]) (Suc k) s"
proof -
  have "doExec w name arg s =
        do_exec_loop w name arg k (advance (retries w name arg (clock s) k) k s)"
    using assms(1,2) by (intro doExec_after_retries) simp_all
  also have "\<dots> = advance [Ev_run name arg] 1 (advance (retries w name arg (clock s) k) k s)"
    using assms(1,3) by (intro do_exec_loop_stop) simp_all
  finally show ?thesis by simp
qed

theorem doExec_takedown_stops_witness:
  "Contains (Stderr (cmd_run world_takedown 1 ''git'' [''clone'', SSHUrl repo_a, ''/data/mirror/users/alice/a'']))
     ''DMCA takedown''
   \<and> doExec world_takedown ''git'' [''clone'', SSHUrl repo_a, ''/data/mirror/users/alice/a''] s_init =
     \<lparr>trace = [Ev_run ''git'' [''clone'', SSHUrl repo_a, ''/data/mirror/users/alice/a''],
               Ev_log (Log_cmd_error ''git''
                 [''clone'', SSHUrl repo_a, ''/data/mirror/users/alice/a''] OtherError),
               Ev_log (Log_retry ''git'' [''clone'', SSHUrl repo_a, ''/data/mirror/users/alice/a'']),
               Ev_sleep 200,
               Ev_run ''git'' [''clone'', SSHUrl repo_a, ''/data/mirror/users/alice/a'']],
      clock = 2\<rparr>"
  using doExec_takedown_stops [of 1 world_takedown s_init "''git''"
      "[''clone'', SSHUrl repo_a, ''/data/mirror/users/alice/a'']"]
  by (simp add: world_takedown_def world0_def s_init_def transient_failure_def
      retries_def retry_block_def advance_def)

text \<open>
  C5: an attempt that exits with status 1 is the last one: the runner returns right after
  it, with no log line, no pause and no further attempt.
\<close>

theorem doExec_exit_1_stops:
  assumes "k < 20"
    and "\<forall>j<k. transient_failure (cmd_run w (clock s + j) name arg)"
    and "Err (cmd_run w (clock s + k) name arg) = Some (ExitError status)"
    and "ExitStatus status = 1"
  shows "doExec w name arg s =
         advance (retries w name arg (clock s) k @ [Ev_run name arg]) (Suc k) s"
proof -
  have "doExec w name arg s =
        do_exec_loop w name arg k (advance (retries w name arg (clock s) k) k s)"
    using assms(1,2) by (intro doExec_after_retries) simp_all
  also have "\<dots> = advance [Ev_run name arg] 1 (advance (retries w name arg (clock s) k) k s)"
    using assms(1,3,4) by (intro do_exec_loop_stop) simp_all
  finally show ?thesis by simp
qed

theorem doExec_exit_1_stops_witness:
  "Err (cmd_run world_exit1 1 ''git'' [''pull'', ''--rebase'']) = Some (ExitError (Exited 1))
   \<and> doExec world_exit1 ''git'' [''pull'', ''--rebase''] s_init =
     \<lparr>trace = [Ev_run ''git'' [''pull'', ''--rebase''],
               Ev_log (Log_cmd_error ''git'' [''pull'', ''--rebase''] (ExitError (Signaled 9))),
               Ev_log (Log_retry ''git'' [''pull'', ''--rebase'']),
               Ev_sleep 200,
               Ev_run ''git'' [''pull'', ''--rebase'']],
      clock = 2\<rparr>"
  using doExec_exit_1_stops [of 1 world_exit1 s_init "''git''" "[''pull'', ''--rebase'']" "Exited 1"]
  by (simp add: world_exit1_def world0_def s_init_def transient_failure_def
      retries_def retry_block_def advance_def)

section \<open>The Paginated Fetcher: claims C1, C6, C7 and C8\<close>

text \<open>
  C1 asks that a listing whose first response has no \<^verbatim>\<open>next\<close> relation, a response
  without \<^verbatim>\<open>Link\<close> header included, ends after one request with the records of
  that page. On a response without the header the code panics instead: the first entry
  of the header is the empty string, and taking it without its first and last byte is a
  slice out of range. One request is made and nothing is returned.
\<close>

theorem fetchApiContent_no_link_header_panics:
  "fetchApiContent 5 world_one_page ''/user/repos'' s_init =
     Some (Panicked,
           \<lparr>trace = [Ev_log (Log_fetch_api ''https://api.github.com/user/repos''),
                     Ev_request ''https://api.github.com/user/repos''],
            clock = 1\<rparr>)"
  by (simp add: fetchApiContent_def github_api_def eval_nat_numeral fetch_page_def
      world_one_page_def world0_def s_init_def emit_def tick_def index_def slice_def)

text \<open>
  C6 asks that a listing of \<open>N\<close> pages yields the records of all pages after \<open>N\<close> requests
  and \<open>N - 1\<close> pauses. On the listing of three pages in which the middle page names the
  previous page before the next one, the code returns the records of the first two pages
  after two requests and one pause of 2000 ms: the third page, which holds a record of
  its own, is never asked for.
\<close>

theorem fetchApiContent_stops_at_middle_page:
  "client_do world_three_pages 2 page3_url = Inr last_page
   \<and> Option.bind (Body last_page) (json_unmarshal world_three_pages) = Some [repo_c]
   \<and> fetchApiContent 5 world_three_pages ''/user/repos'' s_init =
     Some (Returned [repo_a, repo_b],
           \<lparr>trace = [Ev_log (Log_fetch_api page1_url), Ev_request page1_url,
                     Ev_log Log_ratelimit, Ev_sleep 2000,
                     Ev_log (Log_fetch_api page2_url), Ev_request page2_url],
            clock = 2\<rparr>)"
  by (simp add: fetchApiContent_def github_api_def eval_nat_numeral fetch_page_def
      world_three_pages_def world0_def s_init_def emit_def tick_def index_def slice_def
      parseRepo_def page1_url_def page2_url_def page3_url_def first_page_def middle_page_def
      last_page_def)

text \<open>
  C7 asks that the entry with the \<^verbatim>\<open>next\<close> relation is followed wherever it stands
  among the entries of the header. The code reads the first entry only: on the middle
  page, whose second entry carries the relation, the walk stops.
\<close>

theorem fetch_page_reads_first_entry_only:
  \<open>Contains (HeaderLink middle_page) ''<https://api.github.com/user/repos?page=3>; rel="next"''
   \<and> fetch_page world_three_pages page2_url [repo_a] s_init =
       (Stop (Returned [repo_a, repo_b]),
        \<lparr>trace = [Ev_log (Log_fetch_api page2_url), Ev_request page2_url], clock = 1\<rparr>)\<close>
  by (simp add: fetch_page_def world_three_pages_def world0_def s_init_def emit_def tick_def
      index_def slice_def parseRepo_def page1_url_def page2_url_def page3_url_def
      middle_page_def)

text \<open>
  C8 as stated fails in both directions. With every status of the 2xx range accepted: a
  response with status 203 ends the run with the fatal log. With a transport error or a
  status out of that range as the only ends of the run: a response with status 200 whose
  body is no JSON ends the run too, by the panic of \<^verbatim>\<open>parseRepo\<close>, and nothing is
  returned.
\<close>

theorem fetch_page_203_fatal_and_200_panics:
  "client_do world_status_203 0 page1_url = Inr (last_page\<lparr>StatusCode := 203\<rparr>)
   \<and> 200 \<le> StatusCode (last_page\<lparr>StatusCode := 203\<rparr>)
   \<and> StatusCode (last_page\<lparr>StatusCode := 203\<rparr>) < 300
   \<and> fst (fetch_page world_status_203 page1_url [] s_init) = Stop Fatal
   \<and> client_do world_bad_body 0 page1_url = Inr (last_page\<lparr>Body := Some ''<html>''\<rparr>)
   \<and> StatusCode (last_page\<lparr>Body := Some ''<html>''\<rparr>) = 200
   \<and> fetch_page world_bad_body page1_url [] s_init =
       (Stop Panicked,
        \<lparr>trace = [Ev_log (Log_fetch_api page1_url), Ev_request page1_url], clock = 1\<rparr>)
   \<and> map_option fst (fetchApiContent 5 world_bad_body ''/user/repos'' s_init) = Some Panicked"
  by (simp add: fetchApiContent_def github_api_def eval_nat_numeral fetch_page_def
      world_status_203_def world_bad_body_def world0_def s_init_def emit_def tick_def
      index_def slice_def parseRepo_def last_page_def page1_url_def)

text \<open>
  C8, amended: at every page of the walk the fetcher ends the run with the fatal log if
  and only if the transport, given a request that could be built, returns an error or a
  response whose status is not 200; the walk then ends there with no records returned,
  whatever fuel is left. Status 200 alone is accepted, and the page is then processed:
  where the first entry of the \<^verbatim>\<open>Link\<close> header has an address of two bytes or
  more and a second part, the body is read
  and decoded and its records are appended to those gathered so far, and the walk goes on
  to the address of that entry after a pause of 2000 ms if its second part contains
  \<^verbatim>\<open>next\<close>, and returns the records otherwise; a body that cannot be read or decoded
  ends the run by a panic, with no records returned.
\<close>

theorem fetch_page_by_status:
  "(fst (fetch_page w api reps s) = Stop Fatal \<longleftrightarrow>
      new_request_ok w api \<and>
      (case client_do w (clock s) api of Inl err \<Rightarrow> True | Inr rsp \<Rightarrow> StatusCode rsp \<noteq> 200))
   \<and> (fst (fetch_page w api reps s) = Stop Fatal \<longrightarrow>
        map_option fst (fetch_loop (Suc fuel) w api reps s) = Some Fatal)
   \<and> (new_request_ok w api \<and> client_do w (clock s) api = Inr rsp \<and> StatusCode rsp = 200
        \<and> split_on CHR '','' (HeaderLink rsp) = entry # entries
        \<and> split_on CHR '';'' entry = link0 # link1 # rest \<and> 2 \<le> length link0 \<longrightarrow>
        (Body rsp = Some content \<and> parseRepo w content = Some repos \<longrightarrow>
           fetch_page w api reps s =
             (if Contains link1 ''next''
              then (Next (butlast (tl link0)) (reps @ repos),
                    advance [Ev_log (Log_fetch_api api), Ev_request api,
                             Ev_log Log_ratelimit, Ev_sleep 2000] 1 s)
              else (Stop (Returned (reps @ repos)),
                    advance [Ev_log (Log_fetch_api api), Ev_request api] 1 s)))
      \<and> (Body rsp = None \<or> (\<exists>content. Body rsp = Some content \<and> parseRepo w content = None) \<longrightarrow>
           fetch_page w api reps s =
             (Stop Panicked, advance [Ev_log (Log_fetch_api api), Ev_request api] 1 s)
           \<and> map_option fst (fetch_loop (Suc fuel) w api reps s) = Some Panicked))"
proof (intro conjI impI)
  show "fst (fetch_page w api reps s) = Stop Fatal \<longleftrightarrow>
      new_request_ok w api \<and>
      (case client_do w (clock s) api of Inl err \<Rightarrow> True | Inr rsp \<Rightarrow> StatusCode rsp \<noteq> 200)"
    by (auto simp: fetch_page_def Let_def split: sum.splits option.splits)
next
  assume "fst (fetch_page w api reps s) = Stop Fatal"
  then show "map_option fst (fetch_loop (Suc fuel) w api reps s) = Some Fatal"
    by (cases "fetch_page w api reps s") simp
next
  assume page: "new_request_ok w api \<and> client_do w (clock s) api = Inr rsp
      \<and> StatusCode rsp = 200 \<and> split_on CHR '','' (HeaderLink rsp) = entry # entries
      \<and> split_on CHR '';'' entry = link0 # link1 # rest \<and> 2 \<le> length link0"
  then have req: "new_request_ok w api" and rsp: "client_do w (clock s) api = Inr rsp"
    and ok: "StatusCode rsp = 200"
    and entry: "split_on CHR '','' (HeaderLink rsp) = entry # entries"
    and link: "split_on CHR '';'' entry = link0 # link1 # rest" and len: "2 \<le> length link0"
    by simp_all
  {
    assume "Body rsp = Some content \<and> parseRepo w content = Some repos"
    then have body: "Body rsp = Some content" and dec: "parseRepo w content = Some repos"
      by simp_all
    show "fetch_page w api reps s =
        (if Contains link1 ''next''
         then (Next (butlast (tl link0)) (reps @ repos),
               advance [Ev_log (Log_fetch_api api), Ev_request api,
                        Ev_log Log_ratelimit, Ev_sleep 2000] 1 s)
         else (Stop (Returned (reps @ repos)),
               advance [Ev_log (Log_fetch_api api), Ev_request api] 1 s))"
      by (rule fetch_page_processed [OF req rsp ok entry link len body dec])
  next
    assume bad: "Body rsp = None
        \<or> (\<exists>content. Body rsp = Some content \<and> parseRepo w content = None)"
    have panic: "fetch_page w api reps s =
        (Stop Panicked, advance [Ev_log (Log_fetch_api api), Ev_request api] 1 s)"
      by (rule fetch_page_bad_body [OF req rsp ok entry link len bad])
    then show "fetch_page w api reps s =
        (Stop Panicked, advance [Ev_log (Log_fetch_api api), Ev_request api] 1 s)" .
    from panic show "map_option fst (fetch_loop (Suc fuel) w api reps s) = Some Panicked"
      by simp
  }
qed

theorem fetch_page_by_status_witness:
  "fst (fetch_page world_status_203 page1_url [] s_init) = Stop Fatal
   \<and> map_option fst (fetch_loop (Suc 4) world_status_203 page1_url [] s_init) = Some Fatal
   \<and> fetch_page world_three_pages page1_url [] s_init =
       (Next page2_url [repo_a],
        advance [Ev_log (Log_fetch_api page1_url), Ev_request page1_url,
                 Ev_log Log_ratelimit, Ev_sleep 2000] 1 s_init)
   \<and> fetch_page world_three_pages page3_url [repo_a, repo_b] s_init =
       (Stop (Returned [repo_a, repo_b, repo_c]),
        advance [Ev_log (Log_fetch_api page3_url), Ev_request page3_url] 1 s_init)
   \<and> fetch_page world_bad_body page1_url [] s_init =
       (Stop Panicked,
        advance [Ev_log (Log_fetch_api page1_url), Ev_request page1_url] 1 s_init)"
proof -
  have fatal: "fst (fetch_page world_status_203 page1_url [] s_init) = Stop Fatal
      \<and> map_option fst (fetch_loop (Suc 4) world_status_203 page1_url [] s_init) = Some Fatal"
    using fetch_page_by_status [of world_status_203 page1_url "[]" s_init 4]
    by (simp add: world_status_203_def world0_def s_init_def last_page_def)
  have goes_on: "fetch_page world_three_pages page1_url [] s_init =
       (Next page2_url [repo_a],
        advance [Ev_log (Log_fetch_api page1_url), Ev_request page1_url,
                 Ev_log Log_ratelimit, Ev_sleep 2000] 1 s_init)"
    using fetch_page_by_status [of world_three_pages page1_url "[]" s_init 4 first_page
        \<open>''<https://api.github.com/user/repos?page=2>; rel="next"''\<close>
        \<open>['' <https://api.github.com/user/repos?page=3>; rel="last"'']\<close>
        \<open>''<https://api.github.com/user/repos?page=2>''\<close> \<open>'' rel="next"''\<close> "[]"
        "''page1''" "[repo_a]"]
    by (simp add: world_three_pages_def world0_def s_init_def first_page_def parseRepo_def
        page1_url_def page2_url_def)
  have returns: "fetch_page world_three_pages page3_url [repo_a, repo_b] s_init =
       (Stop (Returned [repo_a, repo_b, repo_c]),
        advance [Ev_log (Log_fetch_api page3_url), Ev_request page3_url] 1 s_init)"
    using fetch_page_by_status [of world_three_pages page3_url "[repo_a, repo_b]" s_init 4
        last_page
        \<open>''<https://api.github.com/user/repos?page=2>; rel="prev"''\<close>
        \<open>['' <https://api.github.com/user/repos?page=1>; rel="first"'']\<close>
        \<open>''<https://api.github.com/user/repos?page=2>''\<close> \<open>'' rel="prev"''\<close> "[]"
        "''page3''" "[repo_c]"]
    by (simp add: world_three_pages_def world0_def s_init_def last_page_def parseRepo_def
        page1_url_def page2_url_def page3_url_def)
  have panics: "fetch_page world_bad_body page1_url [] s_init =
       (Stop Panicked,
        advance [Ev_log (Log_fetch_api page1_url), Ev_request page1_url] 1 s_init)"
    using fetch_page_by_status [of world_bad_body page1_url "[]" s_init 4
        "last_page\<lparr>Body := Some ''<html>''\<rparr>"
        \<open>''<https://api.github.com/user/repos?page=2>; rel="prev"''\<close>
        \<open>['' <https://api.github.com/user/repos?page=1>; rel="first"'']\<close>
        \<open>''<https://api.github.com/user/repos?page=2>''\<close> \<open>'' rel="prev"''\<close> "[]"]
    by (simp add: world_bad_body_def world0_def s_init_def last_page_def parseRepo_def
        page1_url_def)
  show ?thesis
    using fatal goes_on returns panics by blast
qed

section \<open>The Reconciler: claims C2 and C10\<close>

text \<open>
  C2 as stated fails in both halves and in what it says of the working context: the test
  of the code is whether \<^verbatim>\<open>os.Stat\<close> returns an error, and the result of
  \<^verbatim>\<open>os.Chdir\<close> is dropped. A directory that exists under a parent that the user may
  not search is not updated: the pass goes on to make it, and the failure of that ends the
  run. Where a regular file stands at the path there is no directory, and the pass
  neither makes one nor clones: it runs \<^verbatim>\<open>reset\<close> and \<^verbatim>\<open>pull\<close>. Where the
  directory exists and may not be entered, \<^verbatim>\<open>reset\<close> and \<^verbatim>\<open>pull\<close> are run all the
  same, in the directory the process was in before.
\<close>

theorem sync_repo_existence_is_not_the_test:
  "path_exists world_denied_dir 0 ''/data/mirror/users/alice/a''
   \<and> is_dir world_denied_dir 0 ''/data/mirror/users/alice/a''
   \<and> sync_repo world_denied_dir ''/data/mirror/users'' repo_a s_init =
       (Fatal,
        \<lparr>trace = [Ev_log (Log_sync_repo ''alice/a'' ''git@github.com:alice/a.git''),
                  Ev_stat ''/data/mirror/users/alice/a'',
                  Ev_log (Log_dir_not_found ''/data/mirror/users/alice/a''),
                  Ev_mkdir_all ''/data/mirror/users/alice/a'' 448],
         clock = 2\<rparr>)
   \<and> path_exists world_regular_file 0 ''/data/mirror/users/alice/a''
   \<and> \<not> is_dir world_regular_file 0 ''/data/mirror/users/alice/a''
   \<and> sync_repo world_regular_file ''/data/mirror/users'' repo_a s_init =
       (Returned (),
        \<lparr>trace = [Ev_log (Log_sync_repo ''alice/a'' ''git@github.com:alice/a.git''),
                  Ev_stat ''/data/mirror/users/alice/a'',
                  Ev_chdir ''/data/mirror/users/alice/a'',
                  Ev_run ''git'' [''reset'', ''--hard''],
                  Ev_run ''git'' [''pull'', ''--rebase'']],
         clock = 3\<rparr>)
   \<and> path_exists world_closed_dir 0 ''/data/mirror/users/alice/a''
   \<and> is_dir world_closed_dir 0 ''/data/mirror/users/alice/a''
   \<and> sync_repo world_closed_dir ''/data/mirror/users'' repo_a s_init =
       (Returned (),
        \<lparr>trace = [Ev_log (Log_sync_repo ''alice/a'' ''git@github.com:alice/a.git''),
                  Ev_stat ''/data/mirror/users/alice/a'',
                  Ev_chdir ''/data/mirror/users/alice/a'',
                  Ev_run ''git'' [''reset'', ''--hard''],
                  Ev_run ''git'' [''pull'', ''--rebase'']],
         clock = 3\<rparr>)
   \<and> working_dir world_closed_dir 0 ''/data/mirror''
         (trace (snd (sync_repo world_closed_dir ''/data/mirror/users'' repo_a s_init))) =
       ''/data/mirror''"
  by (simp add: sync_repo_def doExec_def do_exec_loop.simps world_denied_dir_def
      world_denied_def world_regular_file_def world_closed_dir_def world0_def s_init_def
      repo_a_def Let_def emit_def tick_def)

text \<open>
  C2, amended: for every record, with \<open>localDir = rootDir/FullName\<close>. If
  \<^verbatim>\<open>os.Stat\<close> of the directory returns an error (as it does when nothing is at the
  path), the pass calls \<^verbatim>\<open>MkdirAll\<close> on it with the owner-only permission bits
  \<^verbatim>\<open>0700\<close>; a failure of that is fatal; otherwise it runs the one command
  \<^verbatim>\<open>git clone SSHUrl localDir\<close> (in 1 to 20 attempts) and neither \<^verbatim>\<open>reset\<close> nor
  \<^verbatim>\<open>pull\<close>, and the working directory stays. If \<^verbatim>\<open>os.Stat\<close> succeeds, the pass
  calls \<^verbatim>\<open>Chdir\<close> on the directory, which changes the working directory into it
  when it succeeds and leaves it when it fails, then runs \<^verbatim>\<open>git reset --hard\<close>, then
  \<^verbatim>\<open>git pull --rebase\<close> (each in 1 to 20 attempts), and neither \<^verbatim>\<open>MkdirAll\<close> nor
  \<^verbatim>\<open>clone\<close>.
\<close>

theorem sync_repo_clone_or_update:
  "(os_stat w (clock s) (rootDir @ ''/'' @ FullName repo) = Some err \<longrightarrow>
      (os_mkdir_all w (Suc (clock s)) (rootDir @ ''/'' @ FullName repo) 448 \<noteq> None \<longrightarrow>
         (\<exists>evs. sync_repo w rootDir repo s = (Fatal, advance evs 2 s)
            \<and> actions evs = [Ev_stat (rootDir @ ''/'' @ FullName repo),
                              Ev_mkdir_all (rootDir @ ''/'' @ FullName repo) 448]))
    \<and> (os_mkdir_all w (Suc (clock s)) (rootDir @ ''/'' @ FullName repo) 448 = None \<longrightarrow>
         (\<exists>evs m. sync_repo w rootDir repo s = (Returned (), advance evs (2 + m) s)
            \<and> actions evs = [Ev_stat (rootDir @ ''/'' @ FullName repo),
                              Ev_mkdir_all (rootDir @ ''/'' @ FullName repo) 448]
                 @ replicate m (Ev_run ''git''
                     [''clone'', SSHUrl repo, rootDir @ ''/'' @ FullName repo])
            \<and> 1 \<le> m \<and> m \<le> 20
            \<and> working_dir w (clock s) d evs = d)))
   \<and> (os_stat w (clock s) (rootDir @ ''/'' @ FullName repo) = None \<longrightarrow>
        (\<exists>evs m n. sync_repo w rootDir repo s = (Returned (), advance evs (1 + m + n) s)
           \<and> actions evs = [Ev_stat (rootDir @ ''/'' @ FullName repo),
                             Ev_chdir (rootDir @ ''/'' @ FullName repo)]
                @ replicate m (Ev_run ''git'' [''reset'', ''--hard''])
                @ replicate n (Ev_run ''git'' [''pull'', ''--rebase''])
           \<and> 1 \<le> m \<and> m \<le> 20 \<and> 1 \<le> n \<and> n \<le> 20
           \<and> working_dir w (clock s) d evs =
               (if os_chdir w (Suc (clock s)) (rootDir @ ''/'' @ FullName repo) = None
                then resolve d (rootDir @ ''/'' @ FullName repo) else d)))
   \<and> (stat_sound w \<and> \<not> path_exists w (clock s) (rootDir @ ''/'' @ FullName repo) \<longrightarrow>
        os_stat w (clock s) (rootDir @ ''/'' @ FullName repo) \<noteq> None)
   \<and> owner_only 448"
proof (intro conjI impI)
  let ?p = "rootDir @ ''/'' @ FullName repo"
  {
    assume stat: "os_stat w (clock s) ?p = Some err"
    assume "os_mkdir_all w (Suc (clock s)) ?p 448 \<noteq> None"
    then obtain err' where "os_mkdir_all w (Suc (clock s)) ?p 448 = Some err'" by blast
    from sync_repo_create_fatal [OF stat this]
    show "\<exists>evs. sync_repo w rootDir repo s = (Fatal, advance evs 2 s)
        \<and> actions evs = [Ev_stat ?p, Ev_mkdir_all ?p 448]"
      by (intro exI [of _ "[Ev_log (Log_sync_repo (FullName repo) (SSHUrl repo)), Ev_stat ?p,
            Ev_log (Log_dir_not_found ?p), Ev_mkdir_all ?p 448]"]) (simp add: actions_def)
  next
    assume stat: "os_stat w (clock s) ?p = Some err"
    assume "os_mkdir_all w (Suc (clock s)) ?p 448 = None"
    from sync_repo_create [OF stat this] obtain evs m where
      run: "sync_repo w rootDir repo s = (Returned (), advance evs (2 + m) s)"
      and acts: "actions evs = [Ev_stat ?p, Ev_mkdir_all ?p 448]
             @ replicate m (Ev_run ''git'' [''clone'', SSHUrl repo, ?p])"
      and m: "1 \<le> m" "m \<le> 20"
      by blast
    have "working_dir w (clock s) d evs = d"
      using acts by (rule working_dir_create)
    with run acts m
    show "\<exists>evs m. sync_repo w rootDir repo s = (Returned (), advance evs (2 + m) s)
        \<and> actions evs = [Ev_stat ?p, Ev_mkdir_all ?p 448]
             @ replicate m (Ev_run ''git'' [''clone'', SSHUrl repo, ?p])
        \<and> 1 \<le> m \<and> m \<le> 20 \<and> working_dir w (clock s) d evs = d"
      by blast
  }
next
  let ?p = "rootDir @ ''/'' @ FullName repo"
  assume "os_stat w (clock s) ?p = None"
  from sync_repo_update [OF this] obtain evs m n where
    run: "sync_repo w rootDir repo s = (Returned (), advance evs (1 + m + n) s)"
    and acts: "actions evs = [Ev_stat ?p, Ev_chdir ?p]
           @ replicate m (Ev_run ''git'' [''reset'', ''--hard''])
           @ replicate n (Ev_run ''git'' [''pull'', ''--rebase''])"
    and mn: "1 \<le> m" "m \<le> 20" "1 \<le> n" "n \<le> 20"
    by blast
  have "working_dir w (clock s) d evs =
      (if os_chdir w (Suc (clock s)) ?p = None then resolve d ?p else d)"
    using acts by (rule working_dir_update)
  with run acts mn
  show "\<exists>evs m n. sync_repo w rootDir repo s = (Returned (), advance evs (1 + m + n) s)
      \<and> actions evs = [Ev_stat ?p, Ev_chdir ?p]
           @ replicate m (Ev_run ''git'' [''reset'', ''--hard''])
           @ replicate n (Ev_run ''git'' [''pull'', ''--rebase''])
      \<and> 1 \<le> m \<and> m \<le> 20 \<and> 1 \<le> n \<and> n \<le> 20
      \<and> working_dir w (clock s) d evs =
          (if os_chdir w (Suc (clock s)) ?p = None then resolve d ?p else d)"
    by blast
next
  let ?p = "rootDir @ ''/'' @ FullName repo"
  assume "stat_sound w \<and> \<not> path_exists w (clock s) ?p"
  then show "os_stat w (clock s) ?p \<noteq> None"
    by (auto simp: stat_sound_def)
next
  show "owner_only 448"
    by (simp add: owner_only_def)
qed

theorem sync_repo_clone_or_update_witness:
  "os_stat world_mirror (clock s_init) (''/data/mirror/users'' @ ''/'' @ FullName repo_a) = Some ENOENT
   \<and> (\<exists>evs m. sync_repo world_mirror ''/data/mirror/users'' repo_a s_init =
                 (Returned (), advance evs (2 + m) s_init)
         \<and> actions evs = [Ev_stat ''/data/mirror/users/alice/a'',
                           Ev_mkdir_all ''/data/mirror/users/alice/a'' 448]
              @ replicate m (Ev_run ''git''
                  [''clone'', ''git@github.com:alice/a.git'', ''/data/mirror/users/alice/a''])
         \<and> 1 \<le> m \<and> m \<le> 20
         \<and> working_dir world_mirror (clock s_init) ''/data/mirror'' evs = ''/data/mirror'')
   \<and> os_stat world_mirror (clock s_init) (''/data/mirror/users'' @ ''/'' @ FullName repo_b) = None
   \<and> (\<exists>evs m n. sync_repo world_mirror ''/data/mirror/users'' repo_b s_init =
                   (Returned (), advance evs (1 + m + n) s_init)
         \<and> actions evs = [Ev_stat ''/data/mirror/users/alice/b'',
                           Ev_chdir ''/data/mirror/users/alice/b'']
              @ replicate m (Ev_run ''git'' [''reset'', ''--hard''])
              @ replicate n (Ev_run ''git'' [''pull'', ''--rebase''])
         \<and> 1 \<le> m \<and> m \<le> 20 \<and> 1 \<le> n \<and> n \<le> 20
         \<and> working_dir world_mirror (clock s_init) ''/data/mirror'' evs =
             ''/data/mirror/users/alice/b'')
   \<and> os_stat world_mirror (clock s_init) (''/data/mirror/users'' @ ''/'' @ FullName repo_c) = Some ENOENT
   \<and> (\<exists>evs. sync_repo world_mirror ''/data/mirror/users'' repo_c s_init =
               (Fatal, advance evs 2 s_init)
         \<and> actions evs = [Ev_stat ''/data/mirror/users/alice/c'',
                           Ev_mkdir_all ''/data/mirror/users/alice/c'' 448])
   \<and> stat_sound world_mirror
   \<and> \<not> path_exists world_mirror (clock s_init) (''/data/mirror/users'' @ ''/'' @ FullName repo_a)"
proof -
  have sound: "stat_sound world_mirror"
    by (simp add: stat_sound_def world_mirror_def world0_def)
  show ?thesis
    using sound
      sync_repo_clone_or_update [of world_mirror s_init "''/data/mirror/users''" repo_a ENOENT
        "''/data/mirror''"]
      sync_repo_clone_or_update [of world_mirror s_init "''/data/mirror/users''" repo_b ENOENT
        "''/data/mirror''"]
      sync_repo_clone_or_update [of world_mirror s_init "''/data/mirror/users''" repo_c ENOENT
        "''/data/mirror''"]
    by (simp add: world_mirror_def world0_def s_init_def repo_a_def repo_b_def repo_c_def
        resolve_def)
qed

text \<open>
  C10: the choice between the two branches is made on whether \<^verbatim>\<open>os.Stat\<close> returns
  an error, whatever the error: a pass on a path that exists but whose stat fails for
  another reason than non-existence runs exactly as it would had the path not existed.
  It calls \<^verbatim>\<open>MkdirAll\<close>, ends the run if that fails, and otherwise runs
  \<^verbatim>\<open>git clone\<close>; it calls neither \<^verbatim>\<open>Chdir\<close> nor \<^verbatim>\<open>reset\<close> nor
  \<^verbatim>\<open>pull\<close>.
\<close>

theorem sync_repo_any_stat_error_clones:
  assumes "path_exists w (clock s) (rootDir @ ''/'' @ FullName repo)"
    and "os_stat w (clock s) (rootDir @ ''/'' @ FullName repo) = Some err"
    and "err \<noteq> ENOENT"
  shows "sync_repo w rootDir repo s =
           sync_repo (w\<lparr>os_stat := \<lambda>c p. Some ENOENT\<rparr>) rootDir repo s
       \<and> (os_mkdir_all w (Suc (clock s)) (rootDir @ ''/'' @ FullName repo) 448 \<noteq> None \<longrightarrow>
            (\<exists>evs. sync_repo w rootDir repo s = (Fatal, advance evs 2 s)
               \<and> actions evs = [Ev_stat (rootDir @ ''/'' @ FullName repo),
                                 Ev_mkdir_all (rootDir @ ''/'' @ FullName repo) 448]))
       \<and> (os_mkdir_all w (Suc (clock s)) (rootDir @ ''/'' @ FullName repo) 448 = None \<longrightarrow>
            (\<exists>evs m. sync_repo w rootDir repo s = (Returned (), advance evs (2 + m) s)
               \<and> actions evs = [Ev_stat (rootDir @ ''/'' @ FullName repo),
                                 Ev_mkdir_all (rootDir @ ''/'' @ FullName repo) 448]
                    @ replicate m (Ev_run ''git''
                        [''clone'', SSHUrl repo, rootDir @ ''/'' @ FullName repo])
               \<and> 1 \<le> m \<and> m \<le> 20))"
proof (intro conjI impI)
  let ?p = "rootDir @ ''/'' @ FullName repo"
  show "sync_repo w rootDir repo s =
        sync_repo (w\<lparr>os_stat := \<lambda>c p. Some ENOENT\<rparr>) rootDir repo s"
    using assms(2) by (rule sync_repo_any_error)
  {
    assume "os_mkdir_all w (Suc (clock s)) ?p 448 \<noteq> None"
    then obtain err' where "os_mkdir_all w (Suc (clock s)) ?p 448 = Some err'" by blast
    from sync_repo_create_fatal [OF assms(2) this]
    show "\<exists>evs. sync_repo w rootDir repo s = (Fatal, advance evs 2 s)
        \<and> actions evs = [Ev_stat ?p, Ev_mkdir_all ?p 448]"
      by (intro exI [of _ "[Ev_log (Log_sync_repo (FullName repo) (SSHUrl repo)), Ev_stat ?p,
            Ev_log (Log_dir_not_found ?p), Ev_mkdir_all ?p 448]"]) (simp add: actions_def)
  next
    assume "os_mkdir_all w (Suc (clock s)) ?p 448 = None"
    from sync_repo_create [OF assms(2) this]
    show "\<exists>evs m. sync_repo w rootDir repo s = (Returned (), advance evs (2 + m) s)
        \<and> actions evs = [Ev_stat ?p, Ev_mkdir_all ?p 448]
             @ replicate m (Ev_run ''git'' [''clone'', SSHUrl repo, ?p])
        \<and> 1 \<le> m \<and> m \<le> 20" .
  }
qed

theorem sync_repo_any_stat_error_clones_witness:
  "path_exists world_denied (clock s_init) (''/data/mirror/users'' @ ''/'' @ FullName repo_a)
   \<and> os_stat world_denied (clock s_init) (''/data/mirror/users'' @ ''/'' @ FullName repo_a) = Some EACCES
   \<and> sync_repo world_denied ''/data/mirror/users'' repo_a s_init =
       sync_repo (world_denied\<lparr>os_stat := \<lambda>c p. Some ENOENT\<rparr>) ''/data/mirror/users'' repo_a s_init
   \<and> (\<exists>evs. sync_repo world_denied ''/data/mirror/users'' repo_a s_init =
               (Fatal, advance evs 2 s_init)
         \<and> actions evs = [Ev_stat ''/data/mirror/users/alice/a'',
                           Ev_mkdir_all ''/data/mirror/users/alice/a'' 448])"
proof -
  have ex: "path_exists world_denied (clock s_init) (''/data/mirror/users'' @ ''/'' @ FullName repo_a)"
    by (simp add: world_denied_def world0_def repo_a_def)
  have st: "os_stat world_denied (clock s_init) (''/data/mirror/users'' @ ''/'' @ FullName repo_a) = Some EACCES"
    by (simp add: world_denied_def world0_def repo_a_def)
  have mk: "os_mkdir_all world_denied (Suc (clock s_init))
      (''/data/mirror/users'' @ ''/'' @ FullName repo_a) 448 \<noteq> None"
    by (simp add: world_denied_def world0_def repo_a_def)
  have nm: "''/data/mirror/users'' @ ''/'' @ FullName repo_a = ''/data/mirror/users/alice/a''"
    by (simp add: repo_a_def)
  have ne: "EACCES \<noteq> ENOENT"
    by simp
  show ?thesis
    using ex st mk sync_repo_any_stat_error_clones [OF ex st ne] unfolding nm by blast
qed

section \<open>Running the Reconciler again: claim C9\<close>




end
